theory Spec2Isabelle
  imports Main
begin

section \<open>Python values, errors and the outside world\<close>

text \<open>
  The module \<^verbatim>\<open>teuthology/provision.py\<close> drives the external tool \<^verbatim>\<open>downburst\<close>.
  Its data are Python dictionaries and strings, its effects are log lines, temporary
  files and sub-processes. Dictionaries are association lists of Python values, every
  exception the code can raise on the paths studied here is a value of \<open>error\<close>, and the
  effects are events appended to the trace of an explicit world.

  The module is Python 2 code: what a process writes is a byte string, so
  \<^verbatim>\<open>'exists' in stderr\<close> is a search in a string, and \<open>string\<close> stands for it. A process
  that was started always runs to its end and answers; starting it, removing a file and
  writing the document do not fail.
\<close>

datatype pyval =
    PNone
  | PBool bool
  | PInt int
  | PStr string
  | PList "pyval list"
  | PDict "(string \<times> pyval) list"

type_synonym dict = "(string \<times> pyval) list"

datatype error = TypeError | ValueError | IndexError | KeyError | AttributeError

datatype level = INFO | WARNING | ERROR

datatype event =
    Log level string "pyval list"
  | Invoked "string list"
  | Slept nat
  | Created string
  | Removed string

text \<open>
  A log event keeps the level, the format string of the source and the values that are
  substituted into it. The world: the files that exist (a path with its content,
  \<open>None\<close> for a file that is still empty) and everything observable that has happened
  so far, in order.
\<close>

record world =
  files :: "(string \<times> pyval option) list"
  trace :: "event list"

text \<open>The task context handed to the two entry points: only \<^verbatim>\<open>ctx.config\<close> is read here.
  \<open>None\<close> is a context without the attribute, \<open>Some None\<close> one whose attribute is
  \<^verbatim>\<open>None\<close>.\<close>

record ctx =
  config :: "dict option option"

text \<open>
  The collaborators that \<^verbatim>\<open>provision.py\<close> imports or calls and that are not part of it
  are parameters: the process-wide configuration, the environment, the file-access test,
  the password database, \<^verbatim>\<open>os.path.expanduser\<close>, the helpers of \<^verbatim>\<open>misc\<close> and
  \<^verbatim>\<open>lockstatus\<close>, and the sub-process itself. The helpers are functions of their
  arguments, so the order in which the source calls them does not matter.
  \<open>popen e k args\<close> is what the process started with \<open>args\<close> answers when \<open>k\<close>
  processes have been started before it: exit code, standard output, standard error.
\<close>

record env =
  config_downburst :: "string option"
  environ_PATH :: "string option"
  access_X_OK :: "string \<Rightarrow> bool"
  pw_name :: string
  expanduser :: "string \<Rightarrow> string"
  decanonicalize_hostname :: "string \<Rightarrow> string"
  get_status :: "string \<Rightarrow> dict option"
  get_distro :: "ctx \<Rightarrow> string"
  get_distro_version :: "ctx \<Rightarrow> string"
  popen :: "nat \<Rightarrow> string list \<Rightarrow> int \<times> string \<times> string"

subsection \<open>Python primitives\<close>

fun truthy :: "pyval \<Rightarrow> bool" where
  "truthy PNone = False"
| "truthy (PBool b) = b"
| "truthy (PInt i) = (i \<noteq> 0)"
| "truthy (PStr s) = (s \<noteq> [])"
| "truthy (PList xs) = (xs \<noteq> [])"
| "truthy (PDict d) = (d \<noteq> [])"

text \<open>\<^verbatim>\<open>d.get(k, default)\<close> and \<^verbatim>\<open>d[k]\<close>.\<close>

definition dict_get :: "dict \<Rightarrow> string \<Rightarrow> pyval \<Rightarrow> pyval" where
  "dict_get d k dflt = (case map_of d k of Some v \<Rightarrow> v | None \<Rightarrow> dflt)"

definition dict_item :: "dict \<Rightarrow> string \<Rightarrow> error + pyval" where
  "dict_item d k = (case map_of d k of Some v \<Rightarrow> Inr v | None \<Rightarrow> Inl KeyError)"

text \<open>\<^verbatim>\<open>v[k]\<close> for a string key on any value: only a dictionary can be subscripted so.\<close>

fun subscript :: "pyval \<Rightarrow> string \<Rightarrow> error + pyval" where
  "subscript (PDict d) k = dict_item d k"
| "subscript v k = Inl TypeError"

text \<open>\<^verbatim>\<open>xs[i]\<close> for a non-negative index.\<close>

definition list_item :: "'a list \<Rightarrow> nat \<Rightarrow> error + 'a" where
  "list_item xs i = (if i < length xs then Inr (xs ! i) else Inl IndexError)"

text \<open>\<^verbatim>\<open>s.split(c)\<close> for a separator of one character.\<close>

fun split_chr :: "char \<Rightarrow> string \<Rightarrow> string list" where
  "split_chr c [] = [[]]"
| "split_chr c (x # xs) =
     (if x = c then [] # split_chr c xs
      else (case split_chr c xs of
              [] \<Rightarrow> [[x]]
            | w # ws \<Rightarrow> (x # w) # ws))"

text \<open>\<^verbatim>\<open>sub in s\<close> on strings.\<close>

fun py_in :: "string \<Rightarrow> string \<Rightarrow> bool" where
  "py_in sub [] = (sub = [])"
| "py_in sub (c # cs) = (take (length sub) (c # cs) = sub \<or> py_in sub cs)"

text \<open>\<^verbatim>\<open>s.lower()\<close> and \<^verbatim>\<open>s.strip()\<close> on byte strings.\<close>

definition lower_chr :: "char \<Rightarrow> char" where
  "lower_chr c =
     (let n = (of_char c :: nat)
      in if 65 \<le> n \<and> n \<le> 90 then char_of (n + 32) else c)"

definition lower :: "string \<Rightarrow> string" where
  "lower s = map lower_chr s"

definition is_space :: "char \<Rightarrow> bool" where
  "is_space c = ((of_char c :: nat) \<in> {9, 10, 11, 12, 13, 32})"

definition strip :: "string \<Rightarrow> string" where
  "strip s = rev (dropWhile is_space (rev (dropWhile is_space s)))"

text \<open>\<^verbatim>\<open>os.path.join(p, q)\<close> for a relative \<open>q\<close>, and \<^verbatim>\<open>os.pathsep\<close>.\<close>

definition os_path_join :: "string \<Rightarrow> string \<Rightarrow> string" where
  "os_path_join p q =
     (if p = [] then q
      else if last p = CHR ''/'' then p @ q
      else p @ ''/'' @ q)"

definition pathsep :: char where
  "pathsep = CHR '':''"

subsection \<open>Effects\<close>

definition emit :: "event \<Rightarrow> world \<Rightarrow> world" where
  "emit ev w = w\<lparr>trace := trace w @ [ev]\<rparr>"

fun is_invoked :: "event \<Rightarrow> bool" where
  "is_invoked (Invoked args) = True"
| "is_invoked ev = False"

text \<open>The command lines of the processes started so far, oldest first.\<close>

definition invocations :: "world \<Rightarrow> event list" where
  "invocations w = filter is_invoked (trace w)"

text \<open>\<^verbatim>\<open>subprocess.Popen(args, ...).communicate()\<close>: the process runs to its end and
  its answer is read.\<close>

definition run_process :: "env \<Rightarrow> string list \<Rightarrow> world \<Rightarrow> (int \<times> string \<times> string) \<times> world" where
  "run_process e args w = (popen e (length (invocations w)) args, emit (Invoked args) w)"

text \<open>\<^verbatim>\<open>os.path.exists(p)\<close>, \<^verbatim>\<open>os.remove(p)\<close>.\<close>

definition path_exists :: "world \<Rightarrow> string \<Rightarrow> bool" where
  "path_exists w p = (p \<in> set (map fst (files w)))"

definition os_remove :: "string \<Rightarrow> world \<Rightarrow> world" where
  "os_remove p w = emit (Removed p) (w\<lparr>files := filter (\<lambda>f. fst f \<noteq> p) (files w)\<rparr>)"

text \<open>
  \<^verbatim>\<open>tempfile.NamedTemporaryFile(delete=False)\<close> makes a new, empty file under a name
  that no existing file has. The name chosen here is longer than every existing one.
\<close>

definition fresh_tmp_name :: "string list \<Rightarrow> string" where
  "fresh_tmp_name ps = ''/tmp/tmp'' @ replicate (Suc (foldr max (map length ps) 0)) CHR ''x''"

definition NamedTemporaryFile :: "world \<Rightarrow> string \<times> world" where
  "NamedTemporaryFile w =
     (let p = fresh_tmp_name (map fst (files w))
      in (p, emit (Created p) (w\<lparr>files := (p, None) # files w\<rparr>)))"

text \<open>\<^verbatim>\<open>yaml.safe_dump(doc, fd)\<close>: the document becomes the content of the file.\<close>

definition safe_dump :: "pyval \<Rightarrow> string \<Rightarrow> world \<Rightarrow> world" where
  "safe_dump doc p w = w\<lparr>files := map (\<lambda>f. if fst f = p then (p, Some doc) else f) (files w)\<rparr>"

section \<open>The controller\<close>

record Downburst =
  name :: string
  os_type :: string
  os_version :: string
  status :: dict
  config_path :: "string option"
  host :: string

text \<open>
  \<^verbatim>\<open>Downburst.__init__(self, name, os_type, os_version, status=None)\<close>. The host is
  \<^verbatim>\<open>self.status['vm_host']['name']\<close>: a missing key raises KeyError, a status that is
  \<^verbatim>\<open>None\<close> or a \<^verbatim>\<open>vm_host\<close> that is no dictionary raises TypeError, and so does a host
  name that is no string when it reaches the regular expression of
  \<^verbatim>\<open>decanonicalize_hostname\<close>.
\<close>

definition Downburst_init ::
  "env \<Rightarrow> string \<Rightarrow> string \<Rightarrow> string \<Rightarrow> dict option \<Rightarrow> error + Downburst" where
  "Downburst_init e nm ot ov st =
     (case (case st of
              None \<Rightarrow> get_status e nm
            | Some d \<Rightarrow> if d \<noteq> [] then Some d else get_status e nm) of
        None \<Rightarrow> Inl TypeError
      | Some s \<Rightarrow>
          (case dict_item s ''vm_host'' of
             Inl err \<Rightarrow> Inl err
           | Inr vh \<Rightarrow>
               (case subscript vh ''name'' of
                  Inl err \<Rightarrow> Inl err
                | Inr (PStr h) \<Rightarrow>
                    Inr \<lparr>name = nm, os_type = ot, os_version = ov, status = s,
                         config_path = None, host = decanonicalize_hostname e h\<rparr>
                | Inr v \<Rightarrow> Inl TypeError)))"

text \<open>
  A call that passes its arguments by keyword: a keyword that is no parameter of the
  callee, or a parameter without default that gets no argument, raises TypeError before
  the body runs.
\<close>

definition check_keywords :: "string list \<Rightarrow> string list \<Rightarrow> string list \<Rightarrow> error option" where
  "check_keywords params required keys =
     (if \<exists>k \<in> set keys. k \<notin> set params then Some TypeError
      else if \<exists>r \<in> set required. r \<notin> set keys then Some TypeError
      else None)"

definition Downburst_params :: "string list" where
  "Downburst_params = [''name'', ''os_type'', ''os_version'', ''status'']"

definition Downburst_required :: "string list" where
  "Downburst_required = [''name'', ''os_type'', ''os_version'']"

text \<open>\<^verbatim>\<open>Downburst(k1=nm, k2=ot, k3=ov, k4=st)\<close> with the keywords \<open>keys\<close> as written at
  the call.\<close>

definition Downburst_new ::
  "env \<Rightarrow> string list \<Rightarrow> string \<Rightarrow> string \<Rightarrow> string \<Rightarrow> dict option \<Rightarrow> error + Downburst" where
  "Downburst_new e keys nm ot ov st =
     (case check_keywords Downburst_params Downburst_required keys of
        Some err \<Rightarrow> Inl err
      | None \<Rightarrow> Downburst_init e nm ot ov st)"

subsection \<open>Locating the executable\<close>

definition path_candidates :: "env \<Rightarrow> string list" where
  "path_candidates e =
     (case environ_PATH e of
        None \<Rightarrow> []
      | Some path \<Rightarrow>
          if path = [] then []
          else map (\<lambda>p. os_path_join p ''downburst'') (split_chr pathsep path))"

definition home_candidates :: "env \<Rightarrow> string list" where
  "home_candidates e =
     map (\<lambda>user. expanduser e (''~'' @ user @ ''/src/downburst/virtualenv/bin/downburst''))
       [pw_name e, ''ubuntu'', ''teuthology'']"

definition search_executable :: "env \<Rightarrow> string" where
  "search_executable e =
     (case find (access_X_OK e) (path_candidates e) of
        Some pth \<Rightarrow> pth
      | None \<Rightarrow>
          (case find (access_X_OK e) (home_candidates e) of
             Some pth \<Rightarrow> pth
           | None \<Rightarrow> []))"

text \<open>The property \<^verbatim>\<open>executable\<close>: the configured path when it is set and not empty,
  else the first candidate that can be executed, else the empty string.\<close>

definition executable :: "env \<Rightarrow> string" where
  "executable e =
     (case config_downburst e of
        Some c \<Rightarrow> if c \<noteq> [] then c else search_executable e
      | None \<Rightarrow> search_executable e)"

subsection \<open>Building the descriptor\<close>

text \<open>
  \<^verbatim>\<open>build_config\<close> opens the temporary file first, then reads the MAC address
  (KeyError when the status has none), then takes \<^verbatim>\<open>self.name.split('@')[1]\<close>
  (IndexError when the split has one part only), writes the document and keeps the path.
\<close>

definition file_info :: "Downburst \<Rightarrow> pyval \<Rightarrow> pyval" where
  "file_info self mac =
     PDict [(''disk-size'', PStr ''100G''),
            (''ram'', PStr ''1.9G''),
            (''cpus'', PInt 1),
            (''networks'', PList [PDict [(''source'', PStr ''front''), (''mac'', mac)]]),
            (''distro'', PStr (lower (os_type self))),
            (''distroversion'', PStr (os_version self)),
            (''additional-disks'', PInt 3),
            (''additional-disks-size'', PStr ''200G''),
            (''arch'', PStr ''x86_64'')]"

definition build_config :: "Downburst \<Rightarrow> world \<Rightarrow> (error + bool) \<times> Downburst \<times> world" where
  "build_config self w =
     (case NamedTemporaryFile w of
        (config_fd, w1) \<Rightarrow>
          (case dict_item (status self) ''mac_address'' of
             Inl err \<Rightarrow> (Inl err, self, w1)
           | Inr mac \<Rightarrow>
               (case list_item (split_chr CHR ''@'' (name self)) 1 of
                  Inl err \<Rightarrow> (Inl err, self, w1)
                | Inr fqdn \<Rightarrow>
                    (Inr True,
                     self\<lparr>config_path := Some config_fd\<rparr>,
                     safe_dump (PDict [(''downburst'', file_info self mac),
                                       (''local-hostname'', PStr fqdn)]) config_fd w1))))"

subsection \<open>Create and destroy\<close>

text \<open>What \<^verbatim>\<open>_run_create\<close> hands back: the bare \<^verbatim>\<open>False\<close> of the branch without an
  executable, or the triple of the finished process.\<close>

datatype run_result = RetBool bool | RetTriple int string string

definition create_args :: "env \<Rightarrow> Downburst \<Rightarrow> string \<Rightarrow> string list" where
  "create_args e self cp =
     [executable e, ''-c'', host self, ''create'', ''--meta-data='' @ cp,
      decanonicalize_hostname e (name self)]"

definition run_create :: "env \<Rightarrow> Downburst \<Rightarrow> world \<Rightarrow> (error + run_result) \<times> world" where
  "run_create e self w =
     (case config_path self of
        None \<Rightarrow> (Inl ValueError, w)
      | Some cp \<Rightarrow>
          if cp = [] then (Inl ValueError, w)
          else if executable e = [] then
            (Inr (RetBool False), emit (Log ERROR ''No downburst executable found.'' []) w)
          else
            (case run_process e (create_args e self cp)
                    (emit (Log INFO ''Provisioning a {distro} {distroversion} vps''
                             [PStr (os_type self), PStr (os_version self)]) w) of
               ((returncode, out, err), w1) \<Rightarrow> (Inr (RetTriple returncode out err), w1)))"

definition destroy_args :: "env \<Rightarrow> Downburst \<Rightarrow> string list" where
  "destroy_args e self =
     [executable e, ''-c'', host self, ''destroy'', decanonicalize_hostname e (name self)]"

definition destroy :: "env \<Rightarrow> Downburst \<Rightarrow> world \<Rightarrow> bool \<times> world" where
  "destroy e self w =
     (if executable e = [] then
        (False, emit (Log ERROR ''No downburst executable found.'' []) w)
      else
        (case run_process e (destroy_args e self) w of
           ((returncode, out, err), w1) \<Rightarrow>
             if err \<noteq> [] then
               (False, emit (Log ERROR ''Error destroying {machine}: {msg}''
                              [PStr (name self), PStr err]) w1)
             else if returncode = 0 then
               (True, emit (Log INFO ''%s destroyed: %s'' [PStr (name self), PStr out]) w1)
             else
               (False, emit (Log ERROR ''I don't know if the destroy of {node} succeded!''
                              [PStr (name self)]) w1)))"

text \<open>
  Modelled from the spec: \<^verbatim>\<open>contextutil.safe_while\<close>, which \<^verbatim>\<open>create\<close> imports and
  whose source is not part of this module. By the specification the loop makes at most
  three attempts with a fixed pause of 60 between two attempts, and when the budget is
  used up the loop ends and \<^verbatim>\<open>create\<close> returns the flag recorded last. So
  \<^verbatim>\<open>proceed()\<close> answers true while tries are left, pausing before every try but the
  first, and false afterwards.
\<close>

definition pause_between :: "nat \<Rightarrow> world \<Rightarrow> world" where
  "pause_between tries_left w = (if tries_left = 0 then w else emit (Slept 60) w)"

text \<open>
  The body of the \<^verbatim>\<open>while proceed()\<close> loop of \<^verbatim>\<open>create\<close>, with the number of tries
  left and the flag \<^verbatim>\<open>success\<close> (\<open>None\<close> is Python's \<^verbatim>\<open>None\<close>). Unpacking the bare
  \<^verbatim>\<open>False\<close> of \<^verbatim>\<open>_run_create\<close> into three names raises TypeError.
\<close>

fun create_loop ::
  "env \<Rightarrow> Downburst \<Rightarrow> nat \<Rightarrow> bool option \<Rightarrow> world \<Rightarrow> (error + bool option) \<times> world" where
  "create_loop e self 0 success w = (Inr success, w)"
| "create_loop e self (Suc n) success w =
     (case run_create e self w of
        (Inl err, w1) \<Rightarrow> (Inl err, w1)
      | (Inr (RetBool b), w1) \<Rightarrow> (Inl TypeError, w1)
      | (Inr (RetTriple returncode out err), w1) \<Rightarrow>
          if returncode = 0 then
            (Inr (Some True),
             emit (Log INFO ''Downburst created %s: %s'' [PStr (name self), PStr (strip out)]) w1)
          else if err \<noteq> [] then
            (if py_in ''exists'' err then
               (case destroy e self
                       (emit (Log INFO ''Guest files exist. Re-creating guest: %s''
                                [PStr (name self)]) w1) of
                  (destroyed, w2) \<Rightarrow> create_loop e self n (Some False) (pause_between n w2))
             else
               (Inr (Some False),
                emit (Log INFO ''Downburst failed on %s: %s'' [PStr (name self), PStr (strip err)])
                  w1))
          else create_loop e self n success (pause_between n w1))"

definition tries :: nat where
  "tries = 3"

definition create :: "env \<Rightarrow> Downburst \<Rightarrow> world \<Rightarrow> (error + bool option) \<times> Downburst \<times> world" where
  "create e self w =
     (case build_config self w of
        (Inl err, self1, w1) \<Rightarrow> (Inl err, self1, w1)
      | (Inr built, self1, w1) \<Rightarrow>
          (case create_loop e self1 tries None w1 of
             (r, w2) \<Rightarrow> (r, self1, w2)))"

subsection \<open>Cleanup\<close>

text \<open>
  \<^verbatim>\<open>remove_config\<close> asks \<^verbatim>\<open>os.path.exists(self.config_path)\<close>. That function hands
  its argument to \<^verbatim>\<open>os.stat\<close> and catches operating-system errors only, so for a path
  that is \<^verbatim>\<open>None\<close> the TypeError of \<^verbatim>\<open>os.stat\<close> reaches the caller.
\<close>

definition remove_config :: "Downburst \<Rightarrow> world \<Rightarrow> (error + bool) \<times> Downburst \<times> world" where
  "remove_config self w =
     (case config_path self of
        None \<Rightarrow> (Inl TypeError, self, w)
      | Some cp \<Rightarrow>
          if path_exists w cp then (Inr True, self\<lparr>config_path := None\<rparr>, os_remove cp w)
          else (Inr False, self, w))"

section \<open>The entry points\<close>

definition has_downburst_config :: "ctx \<Rightarrow> bool" where
  "has_downburst_config c =
     (case config c of
        None \<Rightarrow> False
      | Some None \<Rightarrow> False
      | Some (Some d) \<Rightarrow> ''downburst'' \<in> set (map fst d))"

text \<open>
  \<^verbatim>\<open>create_if_vm(ctx, machine_name)\<close>. The status is used without a test for
  \<^verbatim>\<open>None\<close>, so \<^verbatim>\<open>status_info.get\<close> raises AttributeError when the lookup finds nothing.
  The controller is made with the keywords \<^verbatim>\<open>machine_name\<close>, \<^verbatim>\<open>os_type\<close>,
  \<^verbatim>\<open>os_version\<close>, \<^verbatim>\<open>status\<close>.
\<close>

definition entry_keywords :: "string list" where
  "entry_keywords = [''machine_name'', ''os_type'', ''os_version'', ''status'']"

definition create_if_vm :: "env \<Rightarrow> ctx \<Rightarrow> string \<Rightarrow> world \<Rightarrow> (error + bool option) \<times> world" where
  "create_if_vm e c machine_name w =
     (case get_status e machine_name of
        None \<Rightarrow> (Inl AttributeError, w)
      | Some status_info \<Rightarrow>
          if \<not> truthy (dict_get status_info ''is_vm'' (PBool False)) then (Inr (Some False), w)
          else
            (let w1 = (if has_downburst_config c
                       then emit (Log WARNING
                              ''Usage of a custom downburst config has been deprecated.'' []) w
                       else w)
             in case Downburst_new e entry_keywords machine_name (get_distro e c)
                       (get_distro_version e c) (Some status_info) of
                  Inl err \<Rightarrow> (Inl err, w1)
                | Inr dbrst \<Rightarrow>
                    (case create e dbrst w1 of (r, dbrst1, w2) \<Rightarrow> (r, w2))))"

text \<open>
  \<^verbatim>\<open>destroy_if_vm(ctx, machine_name, user=None, description=None)\<close>: \<open>None\<close> for an
  argument left out. \<^verbatim>\<open>status_info['locked_by']\<close> and \<^verbatim>\<open>status_info['description']\<close>
  raise KeyError when the status lacks the key.
\<close>

definition destroy_if_vm ::
  "env \<Rightarrow> ctx \<Rightarrow> string \<Rightarrow> string option \<Rightarrow> string option \<Rightarrow> world \<Rightarrow> (error + bool) \<times> world" where
  "destroy_if_vm e c machine_name user description w =
     (case get_status e machine_name of
        None \<Rightarrow> (Inr True, w)
      | Some status_info \<Rightarrow>
          if status_info = [] \<or> \<not> truthy (dict_get status_info ''is_vm'' (PBool False))
          then (Inr True, w)
          else
            (case (case user of
                     None \<Rightarrow> Inr None
                   | Some u \<Rightarrow>
                       (case dict_item status_info ''locked_by'' of
                          Inl err \<Rightarrow> Inl err
                        | Inr locked_by \<Rightarrow>
                            Inr (if PStr u \<noteq> locked_by then Some (u, locked_by) else None))) of
               Inl err \<Rightarrow> (Inl err, w)
             | Inr (Some (u, locked_by)) \<Rightarrow>
                 (Inr False,
                  emit (Log ERROR
                          ''Tried to destroy {node} as {as_user} but it is locked by {locked_by}''
                          [PStr machine_name, PStr u, locked_by]) w)
             | Inr None \<Rightarrow>
                 (case (case description of
                          None \<Rightarrow> Inr None
                        | Some d \<Rightarrow>
                            (case dict_item status_info ''description'' of
                               Inl err \<Rightarrow> Inl err
                             | Inr desc_lock \<Rightarrow>
                                 Inr (if PStr d \<noteq> desc_lock then Some (d, desc_lock) else None))) of
                    Inl err \<Rightarrow> (Inl err, w)
                  | Inr (Some (d, desc_lock)) \<Rightarrow>
                      (Inr False,
                       emit (Log ERROR
                               (''Tried to destroy {node} with description {desc_arg} '' @
                                ''but it is locked with description {desc_lock}'')
                               [PStr machine_name, PStr d, desc_lock]) w)
                  | Inr None \<Rightarrow>
                      (case Downburst_new e entry_keywords machine_name (get_distro e c)
                              (get_distro_version e c) (Some status_info) of
                         Inl err \<Rightarrow> (Inl err, w)
                       | Inr dbrst \<Rightarrow>
                           (case destroy e dbrst w of (r, w1) \<Rightarrow> (Inr r, w1))))))"

section \<open>Reading the results\<close>

text \<open>The document in the file that the controller's \<^verbatim>\<open>config_path\<close> names, its
  \<^verbatim>\<open>local-hostname\<close> entry, and the part of a string after the first occurrence of a
  character.\<close>

definition written_descriptor :: "Downburst \<times> world \<Rightarrow> pyval option" where
  "written_descriptor sw =
     (case config_path (fst sw) of
        None \<Rightarrow> None
      | Some cp \<Rightarrow> (case map_of (files (snd sw)) cp of None \<Rightarrow> None | Some content \<Rightarrow> content))"

definition local_hostname :: "Downburst \<times> world \<Rightarrow> (error + pyval) option" where
  "local_hostname sw = map_option (\<lambda>doc. subscript doc ''local-hostname'') (written_descriptor sw)"

definition after_first :: "char \<Rightarrow> string \<Rightarrow> string" where
  "after_first c s = tl (dropWhile (\<lambda>x. x \<noteq> c) s)"

text \<open>An attempt that fails without a word: an exit code other than 0 and nothing on
  standard error.\<close>

definition silent_failure :: "int \<times> string \<times> string \<Rightarrow> bool" where
  "silent_failure r = (fst r \<noteq> 0 \<and> snd (snd r) = [])"

text \<open>
  What the retry loop of a controller with the descriptor path \<open>cp\<close> may add to the
  trace: log lines, pauses, and processes started with the create command line for \<open>cp\<close>
  or with the destroy command line; no file is made or removed. \<open>extends\<close> relates a
  world to a later one that differs by such events only.
\<close>

fun is_created :: "event \<Rightarrow> bool" where
  "is_created (Created p) = True"
| "is_created ev = False"

definition loop_event :: "env \<Rightarrow> Downburst \<Rightarrow> string \<Rightarrow> event \<Rightarrow> bool" where
  "loop_event e self cp ev =
     (case ev of
        Invoked args \<Rightarrow> args = create_args e self cp \<or> args = destroy_args e self
      | Created p \<Rightarrow> False
      | Removed p \<Rightarrow> False
      | Log l m vs \<Rightarrow> True
      | Slept t \<Rightarrow> True)"

definition extends :: "env \<Rightarrow> Downburst \<Rightarrow> string \<Rightarrow> world \<Rightarrow> world \<Rightarrow> bool" where
  "extends e self cp w w' =
     (files w' = files w \<and>
      (\<exists>evs. trace w' = trace w @ evs \<and> (\<forall>ev \<in> set evs. loop_event e self cp ev)))"

section \<open>Concrete inputs\<close>

text \<open>A status record as the lock server gives it, an environment whose configured
  executable, status and process answers can be chosen, a controller for the machine
  \<^verbatim>\<open>ubuntu@vpm001\<close>, and a world in which nothing has happened yet.\<close>

definition example_status :: dict where
  "example_status =
     [(''is_vm'', PBool True),
      (''vm_host'', PDict [(''name'', PStr ''mira001'')]),
      (''mac_address'', PStr ''52:54:00:aa:bb:cc''),
      (''locked_by'', PStr ''alice''),
      (''description'', PStr ''nightly'')]"

definition example_env :: "string option \<Rightarrow> dict \<Rightarrow> (nat \<Rightarrow> string list \<Rightarrow> int \<times> string \<times> string) \<Rightarrow> env" where
  "example_env cfg st answers =
     \<lparr>config_downburst = cfg, environ_PATH = None,
      access_X_OK = (\<lambda>p. False), pw_name = ''worker'', expanduser = (\<lambda>p. p),
      decanonicalize_hostname = (\<lambda>s. s), get_status = (\<lambda>m. Some st),
      get_distro = (\<lambda>c. ''Ubuntu''), get_distro_version = (\<lambda>c. ''12.04''),
      popen = answers\<rparr>"

definition example_self :: Downburst where
  "example_self =
     \<lparr>name = ''ubuntu@vpm001'', os_type = ''Ubuntu'', os_version = ''12.04'',
      status = example_status, config_path = None, host = ''mira001''\<rparr>"

definition empty_world :: world where
  "empty_world = \<lparr>files = [], trace = []\<rparr>"

text \<open>The controller after a descriptor was built in the empty world, and that world.\<close>

definition built_self :: Downburst where
  "built_self = fst (snd (build_config example_self empty_world))"

definition built_world :: world where
  "built_world = snd (snd (build_config example_self empty_world))"

text \<open>The status of a machine that is no virtual machine, locked by \<^verbatim>\<open>alice\<close>, and a
  context without a configuration.\<close>

definition nonvm_status :: dict where
  "nonvm_status =
     [(''is_vm'', PBool False),
      (''locked_by'', PStr ''alice''),
      (''description'', PStr ''nightly'')]"

definition plain_ctx :: ctx where
  "plain_ctx = \<lparr>config = None\<rparr>"

text \<open>Controllers whose name has two separators, and none.\<close>

definition two_at_self :: Downburst where
  "two_at_self = example_self\<lparr>name := ''ubuntu@vpm001@lab''\<rparr>"

definition no_at_self :: Downburst where
  "no_at_self = example_self\<lparr>name := ''vpm001''\<rparr>"

text \<open>Answers of the external tool: a conflict on the first call and success afterwards,
  a silent failure on the first call and success afterwards, silent failures only, and
  refusals with an error text only.\<close>

definition conflict_then_ok :: "nat \<Rightarrow> string list \<Rightarrow> int \<times> string \<times> string" where
  "conflict_then_ok k args =
     (if k = 0 then (1, [], ''domain vpm001 already exists'') else (0, ''done'', []))"

definition silent_then_ok :: "nat \<Rightarrow> string list \<Rightarrow> int \<times> string \<times> string" where
  "silent_then_ok k args = (if k = 0 then (1, [], []) else (0, ''done'', []))"

definition always_silent :: "nat \<Rightarrow> string list \<Rightarrow> int \<times> string \<times> string" where
  "always_silent k args = (1, [], [])"

definition always_refused :: "nat \<Rightarrow> string list \<Rightarrow> int \<times> string \<times> string" where
  "always_refused k args = (1, [], ''permission denied'')"

section \<open>Basic facts\<close>

lemma trace_emit [simp]: "trace (emit ev w) = trace w @ [ev]"
  by (simp add: emit_def)

lemma files_emit [simp]: "files (emit ev w) = files w"
  by (simp add: emit_def)

lemma invocations_emit [simp]:
  "invocations (emit ev w) = (if is_invoked ev then invocations w @ [ev] else invocations w)"
  by (simp add: invocations_def)

lemma run_process_simps [simp]:
  "fst (run_process e args w) = popen e (length (invocations w)) args"
  "snd (run_process e args w) = emit (Invoked args) w"
  by (simp_all add: run_process_def)

lemma example_env_fields [simp]:
  "config_downburst (example_env cfg st f) = cfg"
  "environ_PATH (example_env cfg st f) = None"
  "access_X_OK (example_env cfg st f) = (\<lambda>p. False)"
  "pw_name (example_env cfg st f) = ''worker''"
  "expanduser (example_env cfg st f) = (\<lambda>p. p)"
  "decanonicalize_hostname (example_env cfg st f) = (\<lambda>s. s)"
  "get_status (example_env cfg st f) = (\<lambda>m. Some st)"
  "get_distro (example_env cfg st f) = (\<lambda>c. ''Ubuntu'')"
  "get_distro_version (example_env cfg st f) = (\<lambda>c. ''12.04'')"
  "popen (example_env cfg st f) = f"
  by (simp_all add: example_env_def)

lemma example_executable [simp]:
  "executable (example_env (Some ''/usr/bin/downburst'') st f) = ''/usr/bin/downburst''"
  "executable (example_env None st f) = []"
  by (simp_all add: executable_def search_executable_def path_candidates_def home_candidates_def)

lemma empty_world_simps [simp]:
  "files empty_world = []"
  "trace empty_world = []"
  "invocations empty_world = []"
  by (simp_all add: empty_world_def invocations_def)

lemma example_status_items [simp]:
  "dict_get example_status ''is_vm'' (PBool False) = PBool True"
  "dict_item example_status ''locked_by'' = Inr (PStr ''alice'')"
  "dict_item example_status ''description'' = Inr (PStr ''nightly'')"
  "example_status \<noteq> []"
  by (simp_all add: example_status_def dict_get_def dict_item_def)

lemma example_mac [simp]:
  "dict_item example_status ''mac_address'' = Inr (PStr ''52:54:00:aa:bb:cc'')"
  by (simp add: example_status_def dict_item_def)

lemma example_self_fields [simp]:
  "name example_self = ''ubuntu@vpm001''"
  "status example_self = example_status"
  "host example_self = ''mira001''"
  "config_path example_self = None"
  "os_type example_self = ''Ubuntu''"
  "os_version example_self = ''12.04''"
  by (simp_all add: example_self_def)

lemma nonvm_status_items [simp]:
  "dict_get nonvm_status ''is_vm'' (PBool False) = PBool False"
  "dict_item nonvm_status ''locked_by'' = Inr (PStr ''alice'')"
  by (simp_all add: nonvm_status_def dict_get_def dict_item_def)

lemma fresh_tmp_name_not_empty [simp]: "fresh_tmp_name ps \<noteq> []"
  by (simp add: fresh_tmp_name_def)

lemma build_config_built:
  assumes "fst (build_config self w) = Inr b"
  shows "fst (snd (build_config self w)) =
           self\<lparr>config_path := Some (fresh_tmp_name (map fst (files w)))\<rparr>"
  using assms
  by (simp add: build_config_def NamedTemporaryFile_def Let_def split: sum.splits)

lemma example_build [simp]:
  "fst (build_config example_self empty_world) = Inr True"
  by (simp add: build_config_def NamedTemporaryFile_def Let_def example_self_def
      example_status_def dict_item_def list_item_def)

lemma built_self_fields [simp]:
  "name built_self = ''ubuntu@vpm001''"
  "status built_self = example_status"
  "host built_self = ''mira001''"
  "config_path built_self = Some ''/tmp/tmpx''"
  "os_type built_self = ''Ubuntu''"
  "os_version built_self = ''12.04''"
  by (simp_all add: built_self_def build_config_built [of _ _ True] fresh_tmp_name_def)

lemma built_world_simps [simp]:
  "trace built_world = [Created ''/tmp/tmpx'']"
  "invocations built_world = []"
  "path_exists built_world ''/tmp/tmpx''"
  by (simp_all add: built_world_def build_config_def NamedTemporaryFile_def Let_def
      safe_dump_def list_item_def fresh_tmp_name_def invocations_def path_exists_def emit_def)

lemma create_loop_no_executable:
  assumes "executable e = []" and "config_path self = Some cp" and "cp \<noteq> []"
  shows "create_loop e self (Suc n) success w =
           (Inl TypeError, emit (Log ERROR ''No downburst executable found.'' []) w)"
  using assms by (simp add: run_create_def)

lemma Downburst_new_entry_keywords [simp]:
  "Downburst_new e entry_keywords nm ot ov st = Inl TypeError"
  by (simp add: Downburst_new_def check_keywords_def entry_keywords_def Downburst_params_def)

lemma split_chr_not_Nil [simp]: "split_chr c s \<noteq> []"
  by (induction s) (auto split: list.splits)

lemma split_chr_no_sep: "c \<notin> set s \<Longrightarrow> split_chr c s = [s]"
  by (induction s) auto

lemma split_chr_first:
  "c \<in> set s \<Longrightarrow>
   split_chr c s = takeWhile (\<lambda>x. x \<noteq> c) s # split_chr c (after_first c s)"
  by (induction s) (auto simp: after_first_def split: list.splits)

lemma after_first_append: "c \<notin> set a \<Longrightarrow> after_first c (a @ c # b) = b"
  by (induction a) (auto simp: after_first_def)

lemma hd_split_chr: "hd (split_chr c s) = takeWhile (\<lambda>x. x \<noteq> c) s"
  by (induction s) (auto split: list.splits)

lemma split_chr_second:
  assumes "c \<in> set s"
  shows "list_item (split_chr c s) 1 = Inr (takeWhile (\<lambda>x. x \<noteq> c) (after_first c s))"
proof -
  obtain y ys where ys: "split_chr c (after_first c s) = y # ys"
    by (cases "split_chr c (after_first c s)") auto
  then have "y = takeWhile (\<lambda>x. x \<noteq> c) (after_first c s)"
    using hd_split_chr [of c "after_first c s"] by simp
  with ys show ?thesis
    by (simp add: split_chr_first [OF assms] list_item_def)
qed

lemma build_config_local_hostname:
  assumes "dict_item (status self) ''mac_address'' = Inr mac"
    and "list_item (split_chr CHR ''@'' (name self)) 1 = Inr fqdn"
  shows "fst (build_config self w) = Inr True"
    and "local_hostname (snd (build_config self w)) = Some (Inr (PStr fqdn))"
  using assms
  by (simp_all add: build_config_def NamedTemporaryFile_def Let_def safe_dump_def
      local_hostname_def written_descriptor_def dict_item_def)

subsection \<open>One turn of the retry loop\<close>

lemma invocations_files_update [simp]: "invocations (w\<lparr>files := fs\<rparr>) = invocations w"
  by (simp add: invocations_def)

lemma safe_dump_simps [simp]:
  "trace (safe_dump doc p w) = trace w"
  "invocations (safe_dump doc p w) = invocations w"
  by (simp_all add: safe_dump_def)

lemma pause_between_simps [simp]:
  "invocations (pause_between n w) = invocations w"
  "files (pause_between n w) = files w"
  by (simp_all add: pause_between_def)

lemma create_args_config_path [simp]:
  "create_args e (self\<lparr>config_path := p\<rparr>) cp = create_args e self cp"
  by (simp add: create_args_def)

lemma destroy_args_config_path [simp]:
  "destroy_args e (self\<lparr>config_path := p\<rparr>) = destroy_args e self"
  by (simp add: destroy_args_def)

lemma loop_event_config_path [simp]:
  "loop_event e (self\<lparr>config_path := q\<rparr>) cp ev = loop_event e self cp ev"
  by (cases ev) (simp_all add: loop_event_def)

lemma fresh_tmp_name_fresh: "fresh_tmp_name ps \<notin> set ps"
proof
  assume a: "fresh_tmp_name ps \<in> set ps"
  have bound: "length p \<le> foldr max (map length qs) 0" if "p \<in> set qs" for p :: string and qs
    using that by (induction qs) auto
  from bound [OF a] show False by (simp add: fresh_tmp_name_def)
qed

lemma run_create_found:
  assumes "executable e \<noteq> []" and "config_path self = Some cp" and "cp \<noteq> []"
    and "popen e (length (invocations w)) (create_args e self cp) = (returncode, out, err)"
  shows "fst (run_create e self w) = Inr (RetTriple returncode out err)"
    and "invocations (snd (run_create e self w)) = invocations w @ [Invoked (create_args e self cp)]"
    and "files (snd (run_create e self w)) = files w"
  using assms by (simp_all add: run_create_def run_process_def)

lemma destroy_found:
  assumes "executable e \<noteq> []"
  shows "invocations (snd (destroy e self w)) = invocations w @ [Invoked (destroy_args e self)]"
    and "files (snd (destroy e self w)) = files w"
  using assms by (simp_all add: destroy_def run_process_def split: prod.splits)

lemma build_config_world:
  "invocations (snd (snd (build_config self w))) = invocations w"
  "trace (snd (snd (build_config self w))) =
     trace w @ [Created (fresh_tmp_name (map fst (files w)))]"
  by (simp_all add: build_config_def NamedTemporaryFile_def Let_def split: sum.splits)

lemma build_config_files:
  assumes "fst (build_config self w) = Inr True"
  shows "written_descriptor (snd (build_config self w)) \<noteq> None"
  using assms
  by (simp add: build_config_def NamedTemporaryFile_def Let_def safe_dump_def
      written_descriptor_def split: sum.splits)

lemma create_after_build:
  assumes "fst (build_config self w) = Inr True"
  shows "create e self w =
           (fst (create_loop e (self\<lparr>config_path := Some (fresh_tmp_name (map fst (files w)))\<rparr>)
                   tries None (snd (snd (build_config self w)))),
            self\<lparr>config_path := Some (fresh_tmp_name (map fst (files w)))\<rparr>,
            snd (create_loop e (self\<lparr>config_path := Some (fresh_tmp_name (map fst (files w)))\<rparr>)
                   tries None (snd (snd (build_config self w)))))"
proof -
  obtain r self1 w1 where b: "build_config self w = (r, self1, w1)"
    by (cases "build_config self w") auto
  with assms have r: "r = Inr True" by simp
  from build_config_built [of self w True] assms b
  have "self1 = self\<lparr>config_path := Some (fresh_tmp_name (map fst (files w)))\<rparr>" by simp
  with b r show ?thesis by (simp add: create_def split: prod.splits)
qed

lemma create_loop_success:
  assumes "executable e \<noteq> []" and "config_path self = Some cp" and "cp \<noteq> []"
    and "popen e (length (invocations w)) (create_args e self cp) = (0, out, err)"
  shows "create_loop e self (Suc n) success w =
           (Inr (Some True),
            emit (Log INFO ''Downburst created %s: %s'' [PStr (name self), PStr (strip out)])
              (snd (run_create e self w)))"
  using assms by (simp add: run_create_def run_process_def)

lemma create_loop_conflict:
  assumes "executable e \<noteq> []" and "config_path self = Some cp" and "cp \<noteq> []"
    and "popen e (length (invocations w)) (create_args e self cp) = (returncode, out, err)"
    and "returncode \<noteq> 0" and "py_in ''exists'' err"
  shows "create_loop e self (Suc n) success w =
           create_loop e self n (Some False)
             (pause_between n
                (snd (destroy e self
                        (emit (Log INFO ''Guest files exist. Re-creating guest: %s''
                                 [PStr (name self)])
                           (snd (run_create e self w))))))"
proof -
  from assms(6) have "err \<noteq> []" by auto
  with assms show ?thesis
    by (simp add: run_create_def run_process_def split: prod.splits)
qed

lemma create_loop_fatal:
  assumes "executable e \<noteq> []" and "config_path self = Some cp" and "cp \<noteq> []"
    and "popen e (length (invocations w)) (create_args e self cp) = (returncode, out, err)"
    and "returncode \<noteq> 0" and "err \<noteq> []" and "\<not> py_in ''exists'' err"
  shows "create_loop e self (Suc n) success w =
           (Inr (Some False),
            emit (Log INFO ''Downburst failed on %s: %s'' [PStr (name self), PStr (strip err)])
              (snd (run_create e self w)))"
  using assms by (simp add: run_create_def run_process_def)

lemma create_loop_silent:
  assumes "executable e \<noteq> []" and "config_path self = Some cp" and "cp \<noteq> []"
    and "popen e (length (invocations w)) (create_args e self cp) = (returncode, out, [])"
    and "returncode \<noteq> 0"
  shows "create_loop e self (Suc n) success w =
           create_loop e self n success (pause_between n (snd (run_create e self w)))"
  using assms by (simp add: run_create_def run_process_def)

lemma extends_refl [simp]: "extends e self cp w w"
  by (simp add: extends_def)

lemma extends_trans: "extends e self cp w1 w2 \<Longrightarrow> extends e self cp w2 w3 \<Longrightarrow> extends e self cp w1 w3"
  by (auto simp: extends_def)

lemma extends_emit: "loop_event e self cp ev \<Longrightarrow> extends e self cp w w1 \<Longrightarrow> extends e self cp w (emit ev w1)"
  by (auto simp: extends_def)

lemma extends_pause: "extends e self cp w w1 \<Longrightarrow> extends e self cp w (pause_between n w1)"
  by (simp add: pause_between_def extends_emit loop_event_def)

lemma run_create_extends:
  "config_path self = Some cp \<Longrightarrow> extends e self cp w w1 \<Longrightarrow>
   extends e self cp w (snd (run_create e self w1))"
  by (auto simp: run_create_def run_process_def extends_emit loop_event_def split: prod.splits)

lemma destroy_extends:
  "extends e self cp w w1 \<Longrightarrow> extends e self cp w (snd (destroy e self w1))"
  by (simp add: destroy_def run_process_def extends_emit loop_event_def split: prod.splits)

lemma create_loop_extends:
  assumes "config_path self = Some cp"
  shows "extends e self cp w0 w \<Longrightarrow> extends e self cp w0 (snd (create_loop e self n success w))"
proof (induction n arbitrary: success w)
  case 0
  then show ?case by simp
next
  case (Suc n)
  obtain r w1 where rc: "run_create e self w = (r, w1)"
    by (cases "run_create e self w") auto
  from run_create_extends [OF assms Suc.prems] rc
  have w1: "extends e self cp w0 w1" by simp
  show ?case
  proof (cases r)
    case (Inl err)
    with rc w1 show ?thesis by simp
  next
    case (Inr ret)
    show ?thesis
    proof (cases ret)
      case (RetBool b)
      with Inr rc w1 show ?thesis by simp
    next
      case (RetTriple returncode out err)
      have log: "extends e self cp w0 (emit (Log l m vs) w1)" for l m vs
        by (rule extends_emit [OF _ w1]) (simp add: loop_event_def)
      have again: "extends e self cp w0 (snd (create_loop e self n s (pause_between n w2)))"
        if "extends e self cp w0 w2" for s w2
        by (rule Suc.IH [OF extends_pause [OF that]])
      from RetTriple Inr rc log again [OF w1] again [OF destroy_extends [OF log]]
      show ?thesis by (simp add: split_beta)
    qed
  qed
qed

lemma create_loop_unset_iff:
  assumes "executable e \<noteq> []" and "config_path self = Some cp" and "cp \<noteq> []"
  shows "fst (create_loop e self n success w) = Inr None \<longleftrightarrow>
         success = None \<and>
         (\<forall>k<n. silent_failure (popen e (length (invocations w) + k) (create_args e self cp)))"
proof (induction n arbitrary: success w)
  case 0
  show ?case by simp
next
  case (Suc n)
  obtain returncode out err
    where p: "popen e (length (invocations w)) (create_args e self cp) = (returncode, out, err)"
    by (cases "popen e (length (invocations w)) (create_args e self cp)") auto
  note found = assms(1) assms(2) assms(3)
  show ?case
  proof (cases "returncode = 0")
    case True
    with p create_loop_success [OF found, of w out err n success]
    show ?thesis by (auto simp: silent_failure_def)
  next
    case rc: False
    show ?thesis
    proof (cases "err = []")
      case True
      with p have p0: "popen e (length (invocations w)) (create_args e self cp) = (returncode, out, [])"
        by simp
      have shift: "length (invocations (pause_between n (snd (run_create e self w)))) + k =
                   length (invocations w) + Suc k" for k
        by (simp add: run_create_found(2) [OF found p])
      from rc p0 have "silent_failure (popen e (length (invocations w) + 0) (create_args e self cp))"
        by (simp add: silent_failure_def)
      then show ?thesis
        unfolding create_loop_silent [OF found p0 rc] Suc.IH shift All_less_Suc2
        by simp
    next
      case ne: False
      then have not_silent:
        "\<not> silent_failure (popen e (length (invocations w) + 0) (create_args e self cp))"
        using p by (simp add: silent_failure_def)
      show ?thesis
      proof (cases "py_in ''exists'' err")
        case True
        show ?thesis
          unfolding create_loop_conflict [OF found p rc True] Suc.IH All_less_Suc2
          using not_silent by simp
      next
        case False
        show ?thesis
          unfolding create_loop_fatal [OF found p rc ne False] All_less_Suc2
          using not_silent by simp
      qed
    qed
  qed
qed

subsection \<open>The concrete run\<close>

lemma example_create_args [simp]:
  "create_args (example_env (Some ''/usr/bin/downburst'') st f) example_self cp =
     [''/usr/bin/downburst'', ''-c'', ''mira001'', ''create'', ''--meta-data='' @ cp,
      ''ubuntu@vpm001'']"
  "create_args (example_env (Some ''/usr/bin/downburst'') st f) built_self cp =
     [''/usr/bin/downburst'', ''-c'', ''mira001'', ''create'', ''--meta-data='' @ cp,
      ''ubuntu@vpm001'']"
  "destroy_args (example_env (Some ''/usr/bin/downburst'') st f) example_self =
     [''/usr/bin/downburst'', ''-c'', ''mira001'', ''destroy'', ''ubuntu@vpm001'']"
  "destroy_args (example_env (Some ''/usr/bin/downburst'') st f) built_self =
     [''/usr/bin/downburst'', ''-c'', ''mira001'', ''destroy'', ''ubuntu@vpm001'']"
  by (simp_all add: create_args_def destroy_args_def)

lemma fresh_in_empty_world [simp]: "fresh_tmp_name [] = ''/tmp/tmpx''"
  by (simp add: fresh_tmp_name_def)

lemma example_create:
  "create e example_self empty_world =
     (fst (create_loop e built_self tries None built_world), built_self,
      snd (create_loop e built_self tries None built_world))"
  using create_after_build [of example_self empty_world e] build_config_built [of example_self empty_world True]
  by (simp add: built_self_def built_world_def)

lemma example_loop_unfold:
  "create_loop e self 3 s w = create_loop e self (Suc (Suc (Suc 0))) s w"
  by (simp add: numeral_3_eq_3)

section \<open>Destroy\<close>

text \<open>
  C9. Once an executable is found, \<^verbatim>\<open>destroy\<close> starts the external tool exactly once
  and classifies its answer: standard error that is not empty gives false whatever the
  exit code is; empty standard error with exit code 0 gives true; empty standard error
  with another exit code gives false.
\<close>

theorem destroy_classification:
  assumes "executable e \<noteq> []"
    and "popen e (length (invocations w)) (destroy_args e self) = (returncode, out, err)"
  shows "(err \<noteq> [] \<longrightarrow> fst (destroy e self w) = False) \<and>
         (err = [] \<and> returncode = 0 \<longrightarrow> fst (destroy e self w) = True) \<and>
         (err = [] \<and> returncode \<noteq> 0 \<longrightarrow> fst (destroy e self w) = False) \<and>
         invocations (snd (destroy e self w)) = invocations w @ [Invoked (destroy_args e self)]"
  using assms by (simp add: destroy_def run_process_def)

theorem destroy_classification_witness:
  "executable (example_env (Some ''/usr/bin/downburst'') example_status
     (\<lambda>k a. (0, ''gone'', ''libvirt: warning''))) \<noteq> [] \<and>
   fst (destroy (example_env (Some ''/usr/bin/downburst'') example_status
     (\<lambda>k a. (0, ''gone'', ''libvirt: warning''))) example_self empty_world) = False \<and>
   fst (destroy (example_env (Some ''/usr/bin/downburst'') example_status
     (\<lambda>k a. (0, ''gone'', []))) example_self empty_world) = True \<and>
   fst (destroy (example_env (Some ''/usr/bin/downburst'') example_status
     (\<lambda>k a. (1, ''gone'', []))) example_self empty_world) = False"
  using
    destroy_classification [of "example_env (Some ''/usr/bin/downburst'') example_status
      (\<lambda>k a. (0, ''gone'', ''libvirt: warning''))" empty_world example_self 0 "''gone''"
      "''libvirt: warning''"]
    destroy_classification [of "example_env (Some ''/usr/bin/downburst'') example_status
      (\<lambda>k a. (0, ''gone'', []))" empty_world example_self 0 "''gone''" "[]"]
    destroy_classification [of "example_env (Some ''/usr/bin/downburst'') example_status
      (\<lambda>k a. (1, ''gone'', []))" empty_world example_self 1 "''gone''" "[]"]
  by simp

section \<open>Cleanup\<close>

text \<open>
  C4. \<^verbatim>\<open>remove_config\<close> is not idempotent. When the descriptor file exists, the first
  call removes it, returns true and sets \<^verbatim>\<open>config_path\<close> to \<^verbatim>\<open>None\<close>; the second
  call in succession then hands \<^verbatim>\<open>None\<close> to \<^verbatim>\<open>os.path.exists\<close> and raises TypeError
  instead of returning false.
\<close>

theorem remove_config_second_call_raises:
  assumes "config_path self = Some cp" and "path_exists w cp"
  shows "remove_config self w = (Inr True, self\<lparr>config_path := None\<rparr>, os_remove cp w) \<and>
         fst (remove_config (self\<lparr>config_path := None\<rparr>) (os_remove cp w)) = Inl TypeError"
  using assms by (simp add: remove_config_def)

theorem remove_config_second_call_raises_witness:
  "config_path built_self = Some ''/tmp/tmpx'' \<and> path_exists built_world ''/tmp/tmpx'' \<and>
   fst (remove_config built_self built_world) = Inr True \<and>
   fst (remove_config (built_self\<lparr>config_path := None\<rparr>) (os_remove ''/tmp/tmpx'' built_world))
     = Inl TypeError"
  using remove_config_second_call_raises [of built_self "''/tmp/tmpx''" built_world]
  by simp

section \<open>Create without an executable\<close>

text \<open>
  C1. When no executable is found and the descriptor was built, \<^verbatim>\<open>_run_create\<close> logs
  the error and returns a bare \<^verbatim>\<open>False\<close>; \<^verbatim>\<open>create\<close> unpacks it into three names,
  so \<^verbatim>\<open>create\<close> raises TypeError to its caller instead of returning false. The last
  event is the error line of the log.
\<close>

theorem create_without_executable_raises:
  assumes "executable e = []" and "fst (build_config self w) = Inr True"
  shows "fst (create e self w) = Inl TypeError \<and>
         trace (snd (snd (create e self w))) =
           trace (snd (snd (build_config self w))) @
           [Log ERROR ''No downburst executable found.'' []]"
proof -
  obtain r self1 w1 where b: "build_config self w = (r, self1, w1)"
    by (cases "build_config self w") auto
  with assms(2) have r: "r = Inr True" by simp
  from build_config_built [of self w True] assms(2) b
  have cp: "config_path self1 = Some (fresh_tmp_name (map fst (files w)))" by simp
  have "create_loop e self1 tries None w1 =
          (Inl TypeError, emit (Log ERROR ''No downburst executable found.'' []) w1)"
    unfolding tries_def numeral_3_eq_3
    by (rule create_loop_no_executable [OF assms(1) cp]) simp
  with b r show ?thesis by (simp add: create_def)
qed

theorem create_without_executable_raises_witness:
  "executable (example_env None example_status (\<lambda>k a. (0, [], []))) = [] \<and>
   fst (build_config example_self empty_world) = Inr True \<and>
   fst (create (example_env None example_status (\<lambda>k a. (0, [], []))) example_self empty_world)
     = Inl TypeError"
  using create_without_executable_raises
    [of "example_env None example_status (\<lambda>k a. (0, [], []))" example_self empty_world]
  by simp

section \<open>The entry points\<close>

text \<open>
  C2. For a machine whose status has a true \<^verbatim>\<open>is_vm\<close>, \<^verbatim>\<open>create_if_vm\<close> raises
  TypeError when it constructs the controller, since the keyword \<^verbatim>\<open>machine_name\<close> is
  no parameter of the constructor, and it starts no process. \<^verbatim>\<open>destroy_if_vm\<close> does the
  same whenever the owner and the description that the caller gave (if any) equal those of
  the status: it raises TypeError and leaves the world as it was. Neither returns the
  boolean of the controller.
\<close>

theorem entry_points_raise_TypeError:
  assumes "get_status e machine_name = Some st"
    and "truthy (dict_get st ''is_vm'' (PBool False))"
  shows "fst (create_if_vm e c machine_name w) = Inl TypeError \<and>
         invocations (snd (create_if_vm e c machine_name w)) = invocations w \<and>
         ((\<forall>u. user = Some u \<longrightarrow> dict_item st ''locked_by'' = Inr (PStr u)) \<and>
          (\<forall>d. description = Some d \<longrightarrow> dict_item st ''description'' = Inr (PStr d)) \<longrightarrow>
          destroy_if_vm e c machine_name user description w = (Inl TypeError, w))"
proof -
  from assms(2) have ne: "st \<noteq> []" by (auto simp: dict_get_def)
  have c1: "fst (create_if_vm e c machine_name w) = Inl TypeError"
    using assms by (simp add: create_if_vm_def Let_def)
  have c2: "invocations (snd (create_if_vm e c machine_name w)) = invocations w"
    using assms by (simp add: create_if_vm_def Let_def)
  have c3: "destroy_if_vm e c machine_name user description w = (Inl TypeError, w)"
    if "\<forall>u. user = Some u \<longrightarrow> dict_item st ''locked_by'' = Inr (PStr u)"
      and "\<forall>d. description = Some d \<longrightarrow> dict_item st ''description'' = Inr (PStr d)"
    using assms ne that by (cases user; cases description) (simp_all add: destroy_if_vm_def)
  from c1 c2 c3 show ?thesis by blast
qed

theorem entry_points_raise_TypeError_witness:
  "get_status (example_env (Some ''/usr/bin/downburst'') example_status (\<lambda>k a. (0, [], [])))
     ''ubuntu@vpm001'' = Some example_status \<and>
   truthy (dict_get example_status ''is_vm'' (PBool False)) \<and>
   fst (create_if_vm (example_env (Some ''/usr/bin/downburst'') example_status
          (\<lambda>k a. (0, [], []))) plain_ctx ''ubuntu@vpm001'' empty_world) = Inl TypeError \<and>
   destroy_if_vm (example_env (Some ''/usr/bin/downburst'') example_status
          (\<lambda>k a. (0, [], []))) plain_ctx ''ubuntu@vpm001'' (Some ''alice'') (Some ''nightly'')
          empty_world = (Inl TypeError, empty_world)"
  using entry_points_raise_TypeError
    [of "example_env (Some ''/usr/bin/downburst'') example_status (\<lambda>k a. (0, [], []))"
        "''ubuntu@vpm001''" example_status plain_ctx empty_world "Some ''alice''"
        "Some ''nightly''"]
  by simp

text \<open>
  C10, as stated, fails: the test for a virtual machine comes first, so for a machine
  that is no virtual machine a call with the owner \<^verbatim>\<open>bob\<close> against the lock of
  \<^verbatim>\<open>alice\<close> returns true, not failure.
\<close>

theorem destroy_if_vm_mismatch_on_non_vm_counterexample:
  "dict_item nonvm_status ''locked_by'' = Inr (PStr ''alice'') \<and>
   fst (destroy_if_vm (example_env (Some ''/usr/bin/downburst'') nonvm_status
          (\<lambda>k a. (0, [], []))) plain_ctx ''ubuntu@vpm001'' (Some ''bob'') None empty_world)
     = Inr True"
  by (simp add: destroy_if_vm_def)

text \<open>
  C10, amended. If the target is no virtual machine (no status, an empty status, or
  \<^verbatim>\<open>is_vm\<close> false or absent), \<^verbatim>\<open>destroy_if_vm\<close> returns true and changes nothing,
  whatever owner and description the caller gave. If the target is a virtual machine and
  the owner given differs from \<^verbatim>\<open>locked_by\<close>, or the owner passes and the description
  given differs from \<^verbatim>\<open>description\<close>, it returns false and starts no process.
\<close>

theorem destroy_if_vm_gate:
  "(get_status e machine_name = None \<or> get_status e machine_name = Some [] \<or>
    (get_status e machine_name = Some st \<and> \<not> truthy (dict_get st ''is_vm'' (PBool False)))
    \<longrightarrow> destroy_if_vm e c machine_name user description w = (Inr True, w)) \<and>
   (get_status e machine_name = Some st \<and> truthy (dict_get st ''is_vm'' (PBool False)) \<and>
    ((user = Some u \<and> dict_item st ''locked_by'' = Inr v \<and> v \<noteq> PStr u) \<or>
     ((\<forall>u'. user = Some u' \<longrightarrow> dict_item st ''locked_by'' = Inr (PStr u')) \<and>
      description = Some d \<and> dict_item st ''description'' = Inr v \<and> v \<noteq> PStr d))
    \<longrightarrow> fst (destroy_if_vm e c machine_name user description w) = Inr False \<and>
        invocations (snd (destroy_if_vm e c machine_name user description w)) = invocations w)"
proof (intro conjI impI)
  assume "get_status e machine_name = None \<or> get_status e machine_name = Some [] \<or>
    (get_status e machine_name = Some st \<and> \<not> truthy (dict_get st ''is_vm'' (PBool False)))"
  then show "destroy_if_vm e c machine_name user description w = (Inr True, w)"
    by (auto simp: destroy_if_vm_def)
next
  assume a: "get_status e machine_name = Some st \<and> truthy (dict_get st ''is_vm'' (PBool False)) \<and>
    ((user = Some u \<and> dict_item st ''locked_by'' = Inr v \<and> v \<noteq> PStr u) \<or>
     ((\<forall>u'. user = Some u' \<longrightarrow> dict_item st ''locked_by'' = Inr (PStr u')) \<and>
      description = Some d \<and> dict_item st ''description'' = Inr v \<and> v \<noteq> PStr d))"
  then have ne: "st \<noteq> []" by (auto simp: dict_get_def)
  from a ne show "fst (destroy_if_vm e c machine_name user description w) = Inr False"
    by (cases user) (auto simp: destroy_if_vm_def)
  from a ne show "invocations (snd (destroy_if_vm e c machine_name user description w)) = invocations w"
    by (cases user) (auto simp: destroy_if_vm_def)
qed

theorem destroy_if_vm_gate_witness:
  "fst (destroy_if_vm (example_env (Some ''/usr/bin/downburst'') example_status
          (\<lambda>k a. (0, [], []))) plain_ctx ''ubuntu@vpm001'' (Some ''bob'') None empty_world)
     = Inr False \<and>
   fst (destroy_if_vm (example_env (Some ''/usr/bin/downburst'') example_status
          (\<lambda>k a. (0, [], []))) plain_ctx ''ubuntu@vpm001'' (Some ''alice'') (Some ''weekly'')
          empty_world) = Inr False \<and>
   destroy_if_vm (example_env (Some ''/usr/bin/downburst'') nonvm_status
          (\<lambda>k a. (0, [], []))) plain_ctx ''ubuntu@vpm001'' None None empty_world
     = (Inr True, empty_world)"
  using
    destroy_if_vm_gate
      [where e = "example_env (Some ''/usr/bin/downburst'') example_status (\<lambda>k a. (0, [], []))"
         and machine_name = "''ubuntu@vpm001''" and st = example_status
         and user = "Some ''bob''" and u = "''bob''" and v = "PStr ''alice''"
         and description = None and c = plain_ctx and w = empty_world]
    destroy_if_vm_gate
      [where e = "example_env (Some ''/usr/bin/downburst'') example_status (\<lambda>k a. (0, [], []))"
         and machine_name = "''ubuntu@vpm001''" and st = example_status
         and user = "Some ''alice''" and v = "PStr ''nightly''"
         and description = "Some ''weekly''" and d = "''weekly''" and c = plain_ctx
         and w = empty_world]
    destroy_if_vm_gate
      [where e = "example_env (Some ''/usr/bin/downburst'') nonvm_status (\<lambda>k a. (0, [], []))"
         and machine_name = "''ubuntu@vpm001''" and st = nonvm_status
         and user = None and description = None and c = plain_ctx and w = empty_world]
  by simp

section \<open>The descriptor\<close>

text \<open>
  C8, as stated, fails: for the identity \<^verbatim>\<open>ubuntu@vpm001@lab\<close> the part after the first
  separator is \<^verbatim>\<open>vpm001@lab\<close>, but the descriptor's \<^verbatim>\<open>local-hostname\<close> is
  \<^verbatim>\<open>vpm001\<close>, the second piece of the split.
\<close>

theorem local_hostname_two_separators_counterexample:
  "after_first CHR ''@'' (name two_at_self) = ''vpm001@lab'' \<and>
   local_hostname (snd (build_config two_at_self empty_world)) = Some (Inr (PStr ''vpm001''))"
  by (simp add: two_at_self_def after_first_def build_config_def NamedTemporaryFile_def Let_def
      safe_dump_def local_hostname_def written_descriptor_def dict_item_def list_item_def
      example_self_def example_status_def)

text \<open>
  C8, amended. For a status with a MAC address: when the identity contains the separator,
  the descriptor is built and its \<^verbatim>\<open>local-hostname\<close> is the text between the first
  separator and the next one (or the end of the identity); for an identity
  \<^verbatim>\<open>host_part@local_part\<close> with no separator inside either part it is
  \<^verbatim>\<open>local_part\<close>; and for an identity without separator the build raises IndexError.
\<close>

theorem local_hostname_between_separators:
  assumes "dict_item (status self) ''mac_address'' = Inr mac"
  shows "(CHR ''@'' \<in> set (name self) \<longrightarrow>
            fst (build_config self w) = Inr True \<and>
            local_hostname (snd (build_config self w)) =
              Some (Inr (PStr (takeWhile (\<lambda>x. x \<noteq> CHR ''@'') (after_first CHR ''@'' (name self)))))) \<and>
         (name self = host_part @ CHR ''@'' # local_part \<and> CHR ''@'' \<notin> set host_part \<and>
          CHR ''@'' \<notin> set local_part \<longrightarrow>
            local_hostname (snd (build_config self w)) = Some (Inr (PStr local_part))) \<and>
         (CHR ''@'' \<notin> set (name self) \<longrightarrow> fst (build_config self w) = Inl IndexError)"
proof -
  have first: "fst (build_config self w) = Inr True \<and>
        local_hostname (snd (build_config self w)) =
          Some (Inr (PStr (takeWhile (\<lambda>x. x \<noteq> CHR ''@'') (after_first CHR ''@'' (name self)))))"
    if a: "CHR ''@'' \<in> set (name self)"
    using build_config_local_hostname [OF assms split_chr_second [OF a]] by simp
  have second: "local_hostname (snd (build_config self w)) = Some (Inr (PStr local_part))"
    if a: "name self = host_part @ CHR ''@'' # local_part \<and> CHR ''@'' \<notin> set host_part \<and>
          CHR ''@'' \<notin> set local_part"
  proof -
    from a have in_name: "CHR ''@'' \<in> set (name self)" by simp
    from a have "after_first CHR ''@'' (name self) = local_part"
      by (simp add: after_first_append)
    moreover from a have "takeWhile (\<lambda>x. x \<noteq> CHR ''@'') local_part = local_part"
      by auto
    ultimately show ?thesis
      using build_config_local_hostname(2) [OF assms split_chr_second [OF in_name]] by simp
  qed
  have third: "fst (build_config self w) = Inl IndexError" if "CHR ''@'' \<notin> set (name self)"
  proof -
    from that have "list_item (split_chr CHR ''@'' (name self)) 1 = Inl IndexError"
      by (simp add: split_chr_no_sep list_item_def)
    with assms show ?thesis
      by (simp add: build_config_def NamedTemporaryFile_def Let_def)
  qed
  from first second third show ?thesis by blast
qed

theorem local_hostname_between_separators_witness:
  "dict_item (status example_self) ''mac_address'' = Inr (PStr ''52:54:00:aa:bb:cc'') \<and>
   local_hostname (snd (build_config example_self empty_world)) = Some (Inr (PStr ''vpm001'')) \<and>
   local_hostname (snd (build_config two_at_self empty_world)) = Some (Inr (PStr ''vpm001'')) \<and>
   fst (build_config no_at_self empty_world) = Inl IndexError"
  using
    local_hostname_between_separators
      [where self = example_self and mac = "PStr ''52:54:00:aa:bb:cc''" and w = empty_world
         and host_part = "''ubuntu''" and local_part = "''vpm001''"]
    local_hostname_between_separators
      [where self = two_at_self and mac = "PStr ''52:54:00:aa:bb:cc''" and w = empty_world
         and host_part = "''ubuntu''" and local_part = "''vpm001''"]
    local_hostname_between_separators
      [where self = no_at_self and mac = "PStr ''52:54:00:aa:bb:cc''" and w = empty_world
         and host_part = "''ubuntu''" and local_part = "''vpm001''"]
  by (simp add: two_at_self_def no_at_self_def after_first_def)

section \<open>The retry loop of create\<close>

text \<open>
  C5. When the executable is found and the descriptor is built, the first create attempt
  ends with an exit code other than 0 and the word \<^verbatim>\<open>exists\<close> on standard error, and the
  second create attempt (the third process, after the destroy) ends with exit code 0, then
  \<^verbatim>\<open>create\<close> returns true and has started exactly three processes: create, destroy,
  create.
\<close>

theorem conflict_then_success:
  assumes "executable e \<noteq> []" and "fst (build_config self w) = Inr True"
    and "cargs = create_args e self (fresh_tmp_name (map fst (files w)))"
    and "popen e (length (invocations w)) cargs = (returncode, out, err)"
    and "returncode \<noteq> 0" and "py_in ''exists'' err"
    and "popen e (length (invocations w) + 2) cargs = (0, out2, err2)"
  shows "fst (create e self w) = Inr (Some True) \<and>
         invocations (snd (snd (create e self w))) =
           invocations w @ [Invoked cargs, Invoked (destroy_args e self), Invoked cargs]"
proof -
  define cp where "cp = fresh_tmp_name (map fst (files w))"
  define self1 where "self1 = self\<lparr>config_path := Some cp\<rparr>"
  define w1 where "w1 = snd (snd (build_config self w))"
  define w2 where "w2 = pause_between 2
     (snd (destroy e self1
        (emit (Log INFO ''Guest files exist. Re-creating guest: %s'' [PStr (name self1)])
           (snd (run_create e self1 w1)))))"
  have cp: "config_path self1 = Some cp" "cp \<noteq> []"
    by (simp_all add: self1_def cp_def)
  have cargs: "create_args e self1 cp = cargs" "destroy_args e self1 = destroy_args e self"
    by (simp_all add: self1_def assms(3) cp_def)
  have inv1: "invocations w1 = invocations w"
    by (simp add: w1_def build_config_world)
  have p1: "popen e (length (invocations w1)) (create_args e self1 cp) = (returncode, out, err)"
    using assms(4) by (simp add: inv1 cargs)
  have step1: "create_loop e self1 tries None w1 = create_loop e self1 2 (Some False) w2"
    unfolding tries_def numeral_3_eq_3 w2_def
    using create_loop_conflict [OF assms(1) cp p1 assms(5,6), of 2 None]
    by (simp add: numeral_2_eq_2)
  have inv2: "invocations w2 = invocations w @ [Invoked cargs, Invoked (destroy_args e self)]"
    unfolding w2_def
    by (simp add: destroy_found(1) [OF assms(1)] run_create_found(2) [OF assms(1) cp p1]
        inv1 cargs)
  have p2: "popen e (length (invocations w2)) (create_args e self1 cp) = (0, out2, err2)"
    using assms(7) by (simp add: inv2 cargs)
  have step2: "create_loop e self1 2 (Some False) w2 =
      (Inr (Some True),
       emit (Log INFO ''Downburst created %s: %s'' [PStr (name self1), PStr (strip out2)])
         (snd (run_create e self1 w2)))"
    using create_loop_success [OF assms(1) cp p2, of 1 "Some False"]
    by (simp add: numeral_2_eq_2)
  have "invocations (snd (create_loop e self1 tries None w1)) =
          invocations w @ [Invoked cargs, Invoked (destroy_args e self), Invoked cargs]"
    by (simp add: step1 step2 run_create_found(2) [OF assms(1) cp p2] inv2 cargs)
  moreover have "fst (create_loop e self1 tries None w1) = Inr (Some True)"
    by (simp add: step1 step2)
  ultimately show ?thesis
    by (simp add: create_after_build [OF assms(2)] self1_def cp_def w1_def)
qed

theorem conflict_then_success_witness:
  "executable (example_env (Some ''/usr/bin/downburst'') example_status conflict_then_ok) \<noteq> [] \<and>
   fst (build_config example_self empty_world) = Inr True \<and>
   py_in ''exists'' ''domain vpm001 already exists'' \<and>
   fst (create (example_env (Some ''/usr/bin/downburst'') example_status conflict_then_ok)
          example_self empty_world) = Inr (Some True) \<and>
   invocations (snd (snd (create (example_env (Some ''/usr/bin/downburst'') example_status
          conflict_then_ok) example_self empty_world))) =
     [Invoked [''/usr/bin/downburst'', ''-c'', ''mira001'', ''create'',
               ''--meta-data=/tmp/tmpx'', ''ubuntu@vpm001''],
      Invoked [''/usr/bin/downburst'', ''-c'', ''mira001'', ''destroy'', ''ubuntu@vpm001''],
      Invoked [''/usr/bin/downburst'', ''-c'', ''mira001'', ''create'',
               ''--meta-data=/tmp/tmpx'', ''ubuntu@vpm001'']]"
  using conflict_then_success
    [where e = "example_env (Some ''/usr/bin/downburst'') example_status conflict_then_ok"
       and self = example_self and w = empty_world
       and cargs = "[''/usr/bin/downburst'', ''-c'', ''mira001'', ''create'',
                     ''--meta-data=/tmp/tmpx'', ''ubuntu@vpm001'']"
       and returncode = 1 and out = "[]" and err = "''domain vpm001 already exists''"
       and ?out2.0 = "''done''" and ?err2.0 = "[]"]
  by (simp add: conflict_then_ok_def)

text \<open>
  C3, as stated, fails for the case it names in brackets: when the first attempt ends
  with exit code 1 and an empty standard error, no branch of the loop is taken, the loop
  goes on, and here the second attempt succeeds, so \<^verbatim>\<open>create\<close> returns true after two
  create attempts.
\<close>

theorem silent_failure_is_retried_counterexample:
  "silent_then_ok 0 [''/usr/bin/downburst'', ''-c'', ''mira001'', ''create'',
       ''--meta-data=/tmp/tmpx'', ''ubuntu@vpm001''] = (1, [], []) \<and>
   fst (create (example_env (Some ''/usr/bin/downburst'') example_status silent_then_ok)
          example_self empty_world) = Inr (Some True) \<and>
   invocations (snd (snd (create (example_env (Some ''/usr/bin/downburst'') example_status
          silent_then_ok) example_self empty_world))) =
     [Invoked [''/usr/bin/downburst'', ''-c'', ''mira001'', ''create'',
               ''--meta-data=/tmp/tmpx'', ''ubuntu@vpm001''],
      Invoked [''/usr/bin/downburst'', ''-c'', ''mira001'', ''create'',
               ''--meta-data=/tmp/tmpx'', ''ubuntu@vpm001'']]"
  by (simp add: example_create tries_def example_loop_unfold run_create_def run_process_def
      silent_then_ok_def pause_between_def)

text \<open>
  C3, amended. In any turn of the loop (whatever number of tries is left and whatever
  happened before), when the create attempt ends with an exit code other than 0 and a
  standard error that is not empty and does not contain \<^verbatim>\<open>exists\<close>, the loop returns
  false at once: the only process it starts is that create attempt, so no further try is
  made and nothing is destroyed. \<^verbatim>\<open>create\<close> returns what the loop returns.
\<close>

theorem fatal_failure_stops_the_loop:
  assumes "executable e \<noteq> []" and "config_path self = Some cp" and "cp \<noteq> []"
    and "popen e (length (invocations w)) (create_args e self cp) = (returncode, out, err)"
    and "returncode \<noteq> 0" and "err \<noteq> []" and "\<not> py_in ''exists'' err"
  shows "fst (create_loop e self (Suc n) success w) = Inr (Some False) \<and>
         invocations (snd (create_loop e self (Suc n) success w)) =
           invocations w @ [Invoked (create_args e self cp)]"
  using create_loop_fatal [OF assms] run_create_found(2) [OF assms(1-4)] by simp

theorem fatal_failure_stops_the_loop_witness:
  "executable (example_env (Some ''/usr/bin/downburst'') example_status always_refused) \<noteq> [] \<and>
   config_path built_self = Some ''/tmp/tmpx'' \<and>
   \<not> py_in ''exists'' ''permission denied'' \<and>
   fst (create_loop (example_env (Some ''/usr/bin/downburst'') example_status always_refused)
          built_self 3 None built_world) = Inr (Some False) \<and>
   invocations (snd (create_loop (example_env (Some ''/usr/bin/downburst'') example_status
          always_refused) built_self 3 None built_world)) =
     [Invoked [''/usr/bin/downburst'', ''-c'', ''mira001'', ''create'',
               ''--meta-data=/tmp/tmpx'', ''ubuntu@vpm001'']]"
  using fatal_failure_stops_the_loop
    [where e = "example_env (Some ''/usr/bin/downburst'') example_status always_refused"
       and self = built_self and cp = "''/tmp/tmpx''" and w = built_world
       and returncode = 1 and out = "[]" and err = "''permission denied''"
       and n = 2 and success = None]
  by (simp add: always_refused_def)

text \<open>
  C6, as stated, fails: in the run with a conflict on the first attempt, the retry after
  the destroy is started with the same \<^verbatim>\<open>--meta-data\<close> file as the first attempt, and
  the whole run makes one temporary file only.
\<close>

theorem retry_reuses_descriptor_counterexample:
  "filter is_created (trace (snd (snd (create (example_env (Some ''/usr/bin/downburst'')
          example_status conflict_then_ok) example_self empty_world)))) =
     [Created ''/tmp/tmpx''] \<and>
   invocations (snd (snd (create (example_env (Some ''/usr/bin/downburst'') example_status
          conflict_then_ok) example_self empty_world))) =
     [Invoked [''/usr/bin/downburst'', ''-c'', ''mira001'', ''create'',
               ''--meta-data=/tmp/tmpx'', ''ubuntu@vpm001''],
      Invoked [''/usr/bin/downburst'', ''-c'', ''mira001'', ''destroy'', ''ubuntu@vpm001''],
      Invoked [''/usr/bin/downburst'', ''-c'', ''mira001'', ''create'',
               ''--meta-data=/tmp/tmpx'', ''ubuntu@vpm001'']]"
  by (simp add: example_create tries_def example_loop_unfold run_create_def run_process_def
      destroy_def conflict_then_ok_def pause_between_def)

text \<open>
  C6, amended. Every run of \<^verbatim>\<open>create\<close> whose descriptor build succeeds makes exactly
  one new temporary file, before anything else; all that follows are log lines, pauses
  and processes started with that one file as \<^verbatim>\<open>--meta-data\<close> (or destroy calls), and
  at the end the file still holds the descriptor that was written at the start. No retry
  builds a descriptor of its own.
\<close>

theorem one_descriptor_per_create:
  assumes "fst (build_config self w) = Inr True"
    and "p = fresh_tmp_name (map fst (files w))"
  shows "\<not> path_exists w p \<and>
         (\<exists>evs. trace (snd (snd (create e self w))) = trace w @ Created p # evs \<and>
                (\<forall>ev \<in> set evs. loop_event e self p ev)) \<and>
         written_descriptor (snd (create e self w)) = written_descriptor (snd (build_config self w)) \<and>
         written_descriptor (snd (build_config self w)) \<noteq> None"
proof -
  define self1 where "self1 = self\<lparr>config_path := Some p\<rparr>"
  define w1 where "w1 = snd (snd (build_config self w))"
  define w2 where "w2 = snd (create_loop e self1 tries None w1)"
  have cp: "config_path self1 = Some p" by (simp add: self1_def)
  have c: "snd (create e self w) = (self1, w2)"
    by (simp add: create_after_build [OF assms(1)] self1_def w1_def w2_def assms(2))
  have b: "fst (snd (build_config self w)) = self1"
    using build_config_built [OF assms(1)] by (simp add: self1_def assms(2))
  from create_loop_extends [OF cp extends_refl, of e w1 tries None]
  have ext: "extends e self1 p w1 w2" by (simp add: w2_def)
  then obtain evs where evs: "trace w2 = trace w1 @ evs" "\<forall>ev \<in> set evs. loop_event e self p ev"
    by (auto simp: extends_def self1_def)
  have "trace w2 = trace w @ Created p # evs"
    using evs(1) by (simp add: w1_def build_config_world assms(2))
  with evs(2) c
  have events: "\<exists>evs. trace (snd (snd (create e self w))) = trace w @ Created p # evs \<and>
                (\<forall>ev \<in> set evs. loop_event e self p ev)"
    by auto
  from ext have "files w2 = files w1" by (simp add: extends_def)
  with b c have same: "written_descriptor (snd (create e self w)) =
      written_descriptor (snd (build_config self w))"
    by (simp add: written_descriptor_def w1_def cp)
  have new: "\<not> path_exists w p"
    using fresh_tmp_name_fresh [of "map fst (files w)"] by (simp add: path_exists_def assms(2))
  from new events same build_config_files [OF assms(1)] show ?thesis by blast
qed

theorem one_descriptor_per_create_witness:
  "fst (build_config example_self empty_world) = Inr True \<and>
   \<not> path_exists empty_world ''/tmp/tmpx'' \<and>
   (\<exists>evs. trace (snd (snd (create (example_env (Some ''/usr/bin/downburst'') example_status
              conflict_then_ok) example_self empty_world))) = Created ''/tmp/tmpx'' # evs \<and>
          (\<forall>ev \<in> set evs. loop_event (example_env (Some ''/usr/bin/downburst'') example_status
              conflict_then_ok) example_self ''/tmp/tmpx'' ev))"
  using one_descriptor_per_create
    [where self = example_self and w = empty_world and p = "''/tmp/tmpx''"
       and e = "example_env (Some ''/usr/bin/downburst'') example_status conflict_then_ok"]
  by simp

text \<open>
  C7, as stated, fails: when all three attempts end with exit code 1 and an empty
  standard error, the retry budget is used up with the flag never set, and \<^verbatim>\<open>create\<close>
  returns \<^verbatim>\<open>None\<close>, which is no boolean.
\<close>

theorem create_returns_None_counterexample:
  "fst (create (example_env (Some ''/usr/bin/downburst'') example_status always_silent)
          example_self empty_world) = Inr None"
  by (simp add: example_create tries_def example_loop_unfold run_create_def run_process_def
      always_silent_def pause_between_def)

text \<open>
  C7, amended. When the descriptor is built, \<^verbatim>\<open>create\<close> returns \<^verbatim>\<open>None\<close> exactly when
  an executable is found and each of the three attempts ends with an exit code other than
  0 and an empty standard error. Every other run that returns gives true or false.
\<close>

theorem create_result_unset_iff:
  assumes "fst (build_config self w) = Inr True"
    and "cargs = create_args e self (fresh_tmp_name (map fst (files w)))"
  shows "fst (create e self w) = Inr None \<longleftrightarrow>
         executable e \<noteq> [] \<and>
         (\<forall>k<tries. silent_failure (popen e (length (invocations w) + k) cargs))"
proof (cases "executable e = []")
  case True
  have cp: "config_path (self\<lparr>config_path := Some (fresh_tmp_name (map fst (files w)))\<rparr>) =
      Some (fresh_tmp_name (map fst (files w)))"
    by simp
  have "create_loop e (self\<lparr>config_path := Some (fresh_tmp_name (map fst (files w)))\<rparr>)
          tries None (snd (snd (build_config self w))) =
        (Inl TypeError,
         emit (Log ERROR ''No downburst executable found.'' []) (snd (snd (build_config self w))))"
    unfolding tries_def numeral_3_eq_3
    by (rule create_loop_no_executable [OF True cp fresh_tmp_name_not_empty])
  with True show ?thesis by (simp add: create_after_build [OF assms(1)])
next
  case False
  show ?thesis
    using create_loop_unset_iff [OF False, of
        "self\<lparr>config_path := Some (fresh_tmp_name (map fst (files w)))\<rparr>"
        "fresh_tmp_name (map fst (files w))" tries None "snd (snd (build_config self w))"]
      False
    by (simp add: create_after_build [OF assms(1)] build_config_world assms(2))
qed

theorem create_result_unset_iff_witness:
  "fst (build_config example_self empty_world) = Inr True \<and>
   fst (create (example_env (Some ''/usr/bin/downburst'') example_status always_silent)
          example_self empty_world) = Inr None \<and>
   fst (create (example_env (Some ''/usr/bin/downburst'') example_status conflict_then_ok)
          example_self empty_world) \<noteq> Inr None"
  using
    create_result_unset_iff
      [where self = example_self and w = empty_world
         and e = "example_env (Some ''/usr/bin/downburst'') example_status always_silent"
         and cargs = "[''/usr/bin/downburst'', ''-c'', ''mira001'', ''create'',
                       ''--meta-data=/tmp/tmpx'', ''ubuntu@vpm001'']"]
    create_result_unset_iff
      [where self = example_self and w = empty_world
         and e = "example_env (Some ''/usr/bin/downburst'') example_status conflict_then_ok"
         and cargs = "[''/usr/bin/downburst'', ''-c'', ''mira001'', ''create'',
                       ''--meta-data=/tmp/tmpx'', ''ubuntu@vpm001'']"]
  by (auto simp add: always_silent_def conflict_then_ok_def silent_failure_def tries_def)

end
